theory Spec2Isabelle
  imports Complex_Main
begin

section \<open>Values, errors and the array operations used by \<open>time_series.py\<close>\<close>

text \<open>
  The samples of a series are real numbers (the specification's data model: a finite
  ordered sequence of real-valued samples); rounding of the machine arithmetic is not
  modelled.  The results of a division or of a windowed statistic can be one of the
  special values of the floating-point format, which are kept apart from the numbers.
\<close>

datatype npfloat = Num real | PInf | NInf | NaN

text \<open>Every exception that a method of the class can raise is a value.\<close>

datatype error =
    AttributeError
  | IndexError
  | TypeError
  | ValueError
  | ZeroDivisionError
  | UnboundLocalError

definition bnd :: "error + 'a \<Rightarrow> ('a \<Rightarrow> error + 'b) \<Rightarrow> error + 'b" where
  "bnd m f = (case m of Inl e \<Rightarrow> Inl e | Inr x \<Rightarrow> f x)"

text \<open>Reading an attribute that \<open>__init__\<close> never assigned raises \<open>AttributeError\<close>.\<close>

definition attr :: "'a option \<Rightarrow> error + 'a" where
  "attr a = (case a of None \<Rightarrow> Inl AttributeError | Some x \<Rightarrow> Inr x)"

subsection \<open>Slices\<close>

text \<open>
  A slice bound of Python: a negative bound counts from the end, and the result is
  clipped to the length of the sequence.
\<close>

definition py_index :: "nat \<Rightarrow> int \<Rightarrow> nat" where
  "py_index n i = nat (max 0 (min (int n) (if i < 0 then i + int n else i)))"

definition slice_start :: "nat \<Rightarrow> int option \<Rightarrow> nat" where
  "slice_start n a = (case a of None \<Rightarrow> 0 | Some i \<Rightarrow> py_index n i)"

definition slice_stop :: "nat \<Rightarrow> int option \<Rightarrow> nat" where
  "slice_stop n b = (case b of None \<Rightarrow> n | Some j \<Rightarrow> py_index n j)"

definition py_slice :: "'a list \<Rightarrow> int option \<Rightarrow> int option \<Rightarrow> 'a list" where
  "py_slice xs a b =
     (let s = slice_start (length xs) a; e = slice_stop (length xs) b
      in take (e - s) (drop s xs))"

text \<open>
  Assignment to a slice of an array: the right-hand side must have the shape of the
  slice, or one element, which is then repeated; any other shape is a \<open>ValueError\<close>.
\<close>

definition np_setslice :: "'a list \<Rightarrow> int option \<Rightarrow> int option \<Rightarrow> 'a list \<Rightarrow> error + 'a list" where
  "np_setslice xs a b rhs =
     (let s = slice_start (length xs) a; e = slice_stop (length xs) b; k = e - s
      in if length rhs = k then Inr (take s xs @ rhs @ drop (s + k) xs)
         else if length rhs = 1 then Inr (take s xs @ replicate k (hd rhs) @ drop (s + k) xs)
         else Inl ValueError)"

text \<open>An element-wise operation on two arrays, with the broadcasting of one-element arrays.\<close>

definition np_elementwise :: "('a \<Rightarrow> 'b \<Rightarrow> 'c) \<Rightarrow> 'a list \<Rightarrow> 'b list \<Rightarrow> error + 'c list" where
  "np_elementwise f xs ys =
     (if length xs = length ys then Inr (map2 f xs ys)
      else if length xs = 1 then Inr (map (f (hd xs)) ys)
      else if length ys = 1 then Inr (map (\<lambda>x. f x (hd ys)) xs)
      else Inl ValueError)"

subsection \<open>Arithmetic\<close>

fun cumsum_from :: "real \<Rightarrow> real list \<Rightarrow> real list" where
  "cumsum_from acc [] = []"
| "cumsum_from acc (x # xs) = (acc + x) # cumsum_from (acc + x) xs"

definition np_cumsum :: "real list \<Rightarrow> real list" where
  "np_cumsum xs = cumsum_from 0 xs"

text \<open>\<open>np.arange(a, b)\<close> on integers: \<open>a, a+1, ..., b-1\<close>.\<close>

definition np_arange_int :: "int \<Rightarrow> int \<Rightarrow> real list" where
  "np_arange_int a b = map real_of_int [a..b - 1]"

text \<open>
  \<open>np.arange(start, stop, step)\<close> on floats has \<open>ceil((stop - start) / step)\<close> elements
  (none when that is not positive), the \<open>i\<close>-th being \<open>start + i * step\<close>; the length is
  computed by a division, which fails for a zero step.
\<close>

definition np_arange :: "real \<Rightarrow> real \<Rightarrow> real \<Rightarrow> error + real list" where
  "np_arange start stop step =
     (if step = 0 then Inl ZeroDivisionError
      else Inr (map (\<lambda>i. start + real i * step) [0..<nat \<lceil>(stop - start) / step\<rceil>]))"

text \<open>Division of floats in numpy does not raise: a zero divisor gives a special value.\<close>

definition np_true_divide :: "real \<Rightarrow> real \<Rightarrow> npfloat" where
  "np_true_divide a b =
     (if b \<noteq> 0 then Num (a / b)
      else if a = 0 then NaN
      else if 0 < a then PInf else NInf)"

fun np_subtract :: "real \<Rightarrow> npfloat \<Rightarrow> npfloat" where
  "np_subtract a (Num b) = Num (a - b)"
| "np_subtract a PInf = NInf"
| "np_subtract a NInf = PInf"
| "np_subtract a NaN = NaN"

text \<open>
  Modelled from the spec: \<open>rplacem.utilities.divide_treatzero\<close> is called by
  \<open>set_ratio_to_sw_average\<close> and is not among the sources.  The specification describes it
  as the safe division of the ratio step: when the divisor is zero a fixed fallback value
  is substituted, and the division is the ordinary one otherwise.  The call site passes
  two constants, taken here as the fallback for a zero numerator and for a nonzero one.
\<close>

fun divide_treatzero1 :: "real \<Rightarrow> npfloat \<Rightarrow> real \<Rightarrow> real \<Rightarrow> npfloat" where
  "divide_treatzero1 a (Num b) equal_zero a_nonzero =
     (if b = 0 then (if a = 0 then Num equal_zero else Num a_nonzero) else Num (a / b))"
| "divide_treatzero1 a PInf equal_zero a_nonzero = Num 0"
| "divide_treatzero1 a NInf equal_zero a_nonzero = Num 0"
| "divide_treatzero1 a NaN equal_zero a_nonzero = NaN"

definition divide_treatzero :: "real list \<Rightarrow> npfloat list \<Rightarrow> real \<Rightarrow> real \<Rightarrow> error + npfloat list" where
  "divide_treatzero a b equal_zero a_nonzero =
     np_elementwise (\<lambda>x y. divide_treatzero1 x y equal_zero a_nonzero) a b"

section \<open>The class \<open>TimeSeries\<close>\<close>

text \<open>
  An attribute that \<open>__init__\<close> assigns only on some paths (\<open>n_pts\<close>, \<open>tmin\<close>,
  \<open>t_interval\<close> and the two widths) is optional: \<open>None\<close> means that the object has no
  such attribute.  For \<open>val\<close> and the derived sequences \<open>None\<close> is Python's \<open>None\<close>.
\<close>

record TimeSeries =
  val :: "real list option"
  n_pts :: "nat option"
  tmin :: "real option"
  t_interval :: "real option"
  sw_width_mean :: "int option"
  sw_width_ews :: "int option"
  desc_long :: string
  desc_short :: string
  label :: string
  name :: string
  savename :: string
  t_pts :: "real list option"
  variance :: "npfloat list option"
  autocorrelation :: "npfloat list option"
  skewness :: "npfloat list option"
  kendall_tau :: "npfloat list option"
  ratio_to_sw_mean :: "npfloat list option"

text \<open>\<open>np.any(self.val is not None)\<close>: the argument is one boolean.\<close>

definition exists :: "TimeSeries \<Rightarrow> bool" where
  "exists ts = (val ts \<noteq> None)"

definition set_t_pts :: "TimeSeries \<Rightarrow> error + TimeSeries" where
  "set_t_pts ts =
     bnd (attr (tmin ts)) (\<lambda>t0.
     bnd (attr (n_pts ts)) (\<lambda>n.
     bnd (attr (t_interval ts)) (\<lambda>dt.
     bnd (np_arange t0 (t0 + real n * dt - 1 / 10000) dt) (\<lambda>r.
     Inr (ts\<lparr>t_pts := Some r\<rparr>)))))"

subsection \<open>The sliding mean\<close>

text \<open>
  \<open>np.empty\<close> leaves the contents of the new array unspecified; zeros stand for them.
  The statement \<open>mean_sliding[0] = self.val[0]\<close> evaluates its right-hand side first.
\<close>

definition np_empty :: "nat \<Rightarrow> npfloat list" where
  "np_empty n = replicate n (Num 0)"

text \<open>
  The body of \<open>set_ratio_to_sw_average\<close> up to its last assignment to the local array
  \<open>mean_sliding\<close>, for \<open>n = self.n_pts\<close>, \<open>sw = self.sw_width_mean\<close> and \<open>v = self.val\<close>.
\<close>

definition sliding_mean :: "nat \<Rightarrow> int \<Rightarrow> real list \<Rightarrow> error + npfloat list" where
  "sliding_mean n sw v =
     (let mean_sliding = np_empty n;
          cumul_sum = np_cumsum v
      in case v of
           [] \<Rightarrow> Inl IndexError
         | v0 # _ \<Rightarrow>
            if n = 0 then Inl IndexError
            else
              let ms0 = mean_sliding[0 := Num v0];
                  len_tail = int (length (py_slice ms0 (Some 1) None))
              in
              bnd (np_elementwise np_true_divide
                     (py_slice cumul_sum (Some 0) (Some (min sw len_tail)))
                     (np_arange_int 1 (min (len_tail + 1) (sw + 1)))) (\<lambda>q.
              bnd (np_setslice ms0 (Some 1) (Some (sw + 1)) q) (\<lambda>ms1.
              bnd (np_elementwise (-)
                     (py_slice cumul_sum (Some sw) (Some (- 1)))
                     (py_slice cumul_sum None (Some (- sw - 1)))) (\<lambda>d.
              np_setslice ms1 (Some (sw + 1)) None
                (map (\<lambda>x. np_true_divide x (real_of_int sw)) d)))))"

definition set_ratio_to_sw_average :: "bool \<Rightarrow> TimeSeries \<Rightarrow> error + TimeSeries" where
  "set_ratio_to_sw_average rerun ts =
     (if ratio_to_sw_mean ts = None \<or> rerun then
        bnd (attr (n_pts ts)) (\<lambda>n.
        bnd (attr (sw_width_mean ts)) (\<lambda>sw.
        case val ts of
          None \<Rightarrow> Inl TypeError
        | Some v \<Rightarrow>
           bnd (sliding_mean n sw v) (\<lambda>mean_sliding.
           if py_slice (label ts) (Some 0) (Some 6) = ''autoco'' then
             bnd (np_elementwise np_subtract v mean_sliding) (\<lambda>r.
             Inr (ts\<lparr>ratio_to_sw_mean := Some r\<rparr>))
           else
             bnd (divide_treatzero v mean_sliding 1 1) (\<lambda>r.
             Inr (ts\<lparr>ratio_to_sw_mean := Some r\<rparr>)))))
      else Inr ts)"

subsection \<open>Rolling statistics of pandas\<close>

text \<open>
  \<open>pd.Series(None)\<close> is the empty series.  \<open>rolling(window=w, min_periods=1)\<close> rejects a
  width below one (the window must hold \<open>min_periods\<close> samples) and gives, at index \<open>i\<close>,
  the window of the last \<open>w\<close> samples up to and including \<open>i\<close>, shorter at the start.
\<close>

definition pd_Series :: "real list option \<Rightarrow> real list" where
  "pd_Series v = (case v of None \<Rightarrow> [] | Some xs \<Rightarrow> xs)"

definition rolling :: "int \<Rightarrow> real list \<Rightarrow> error + real list list" where
  "rolling w xs =
     (if w < 1 then Inl ValueError
      else Inr (map (\<lambda>i. drop (Suc i - nat w) (take (Suc i) xs)) [0..<length xs]))"

definition mean :: "real list \<Rightarrow> real" where
  "mean xs = sum_list xs / real (length xs)"

definition central_sum :: "nat \<Rightarrow> real list \<Rightarrow> real" where
  "central_sum p xs = (\<Sum>x\<leftarrow>xs. (x - mean xs) ^ p)"

text \<open>The unbiased sample variance; undefined for fewer than two samples.\<close>

definition roll_var :: "real list \<Rightarrow> npfloat" where
  "roll_var w =
     (if length w < 2 then NaN else Num (central_sum 2 w / (real (length w) - 1)))"

text \<open>
  The adjusted Fisher-Pearson coefficient of skewness; undefined for fewer than three
  samples and for a window without spread.
\<close>

definition roll_skew :: "real list \<Rightarrow> npfloat" where
  "roll_skew w =
     (let k = real (length w); m2 = central_sum 2 w / k; m3 = central_sum 3 w / k
      in if length w < 3 \<or> m2 = 0 then NaN
         else Num (sqrt (k * (k - 1)) / (k - 2) * (m3 / (sqrt m2) ^ 3)))"

text \<open>
  \<open>Series.autocorr()\<close>: the Pearson correlation of the series with itself shifted by one
  place, over the pairs where both are present; undefined when a sum of squares vanishes.
\<close>

definition pearson :: "real list \<Rightarrow> real list \<Rightarrow> npfloat" where
  "pearson a b =
     (if a = [] then NaN
      else let sxy = (\<Sum>(x, y)\<leftarrow>zip a b. (x - mean a) * (y - mean b));
               d = sqrt (central_sum 2 a * central_sum 2 b)
           in if d \<noteq> 0 then Num (sxy / d) else NaN)"

definition autocorr :: "real list \<Rightarrow> npfloat" where
  "autocorr y = pearson (tl y) (butlast y)"

subsection \<open>Kendall's tau\<close>

text \<open>
  \<open>scipy.stats.kendalltau(x, y, variant='c')\<close>: the arrays must have one size; the
  statistic is undefined for empty arrays and when all of \<open>x\<close> or all of \<open>y\<close> are tied;
  otherwise it is \<open>2 (C - D) / (n\<^sup>2 (m - 1) / m)\<close>, with \<open>C - D\<close> the concordant minus the
  discordant pairs and \<open>m\<close> the smaller number of distinct values, clipped to \<open>[-1, 1]\<close>.
\<close>

definition pair_sign :: "real \<times> real \<Rightarrow> real \<times> real \<Rightarrow> int" where
  "pair_sign p q =
     (let s = (fst q - fst p) * (snd q - snd p)
      in if 0 < s then 1 else if s < 0 then - 1 else 0)"

fun con_minus_dis :: "(real \<times> real) list \<Rightarrow> int" where
  "con_minus_dis [] = 0"
| "con_minus_dis (p # ps) = (\<Sum>q\<leftarrow>ps. pair_sign p q) + con_minus_dis ps"

definition kendalltau_c :: "real list \<Rightarrow> real list \<Rightarrow> error + npfloat" where
  "kendalltau_c x y =
     (if length x \<noteq> length y then Inl ValueError
      else if x = [] then Inr NaN
      else
        let cx = length (remdups x); cy = length (remdups y) in
        if cx = 1 \<or> cy = 1 then Inr NaN
        else
          let m = real (min cx cy); n = real (length x);
              tau = 2 * real_of_int (con_minus_dis (zip x y)) / (n ^ 2 * (m - 1) / m)
          in Inr (Num (min 1 (max (- 1) tau))))"

definition calc_kendall_tau :: "real list \<Rightarrow> error + npfloat" where
  "calc_kendall_tau variable =
     (let x = np_arange_int 0 (int (length variable));
          y = variable
      in bnd (kendalltau_c x y) (\<lambda>res.
         Inr (if res = NaN then Num 0 else res)))"

text \<open>\<open>rolling(...).apply(f)\<close> calls \<open>f\<close> on each window in turn; an exception of \<open>f\<close> ends it.\<close>

fun apply_each :: "('a \<Rightarrow> error + 'b) \<Rightarrow> 'a list \<Rightarrow> error + 'b list" where
  "apply_each f [] = Inr []"
| "apply_each f (w # ws) =
     bnd (f w) (\<lambda>r. bnd (apply_each f ws) (\<lambda>rs. Inr (r # rs)))"

subsection \<open>The setters\<close>

definition set_variance :: "TimeSeries \<Rightarrow> error + TimeSeries" where
  "set_variance ts =
     (let x = pd_Series (val ts) in
      bnd (attr (sw_width_ews ts)) (\<lambda>w.
      bnd (rolling w x) (\<lambda>ws.
      Inr (ts\<lparr>variance := Some (map roll_var ws)\<rparr>))))"

text \<open>
  In \<open>set_skewness\<close> the name \<open>x\<close> is a local variable of the method (the method assigns
  it), and the first statement, \<open>x = pd.Series(x)\<close>, reads it before any assignment.
\<close>

definition set_skewness :: "TimeSeries \<Rightarrow> error + TimeSeries" where
  "set_skewness ts =
     (let x_local = (None :: real list option) in
      case x_local of
        None \<Rightarrow> Inl UnboundLocalError
      | Some x0 \<Rightarrow>
          let x = pd_Series (Some x0) in
          bnd (attr (sw_width_ews ts)) (\<lambda>w.
          bnd (rolling w x) (\<lambda>ws.
          Inr (ts\<lparr>skewness := Some (map roll_skew ws)\<rparr>))))"

definition set_autocorrelation :: "TimeSeries \<Rightarrow> error + TimeSeries" where
  "set_autocorrelation ts =
     (let x = pd_Series (val ts) in
      bnd (attr (sw_width_ews ts)) (\<lambda>w.
      bnd (rolling w x) (\<lambda>ws.
      Inr (ts\<lparr>autocorrelation := Some (map autocorr ws)\<rparr>))))"

definition set_kendall_tau :: "bool \<Rightarrow> TimeSeries \<Rightarrow> error + TimeSeries" where
  "set_kendall_tau rerun ts =
     (if exists ts \<and> (kendall_tau ts = None \<or> rerun) then
        let x = pd_Series (val ts) in
        bnd (attr (sw_width_ews ts)) (\<lambda>w.
        bnd (rolling w x) (\<lambda>ws.
        bnd (apply_each calc_kendall_tau ws) (\<lambda>r.
        Inr (ts\<lparr>kendall_tau := Some r\<rparr>))))
      else Inr ts)"

definition set_all_vars :: "TimeSeries \<Rightarrow> error + TimeSeries" where
  "set_all_vars ts =
     bnd (set_t_pts ts) (\<lambda>ts1.
     bnd (set_ratio_to_sw_average False ts1) (\<lambda>ts2.
     bnd (set_variance ts2) (\<lambda>ts3.
     bnd (set_autocorrelation ts3) (\<lambda>ts4.
     bnd (set_skewness ts4) (\<lambda>ts5.
     set_kendall_tau False ts5)))))"

subsection \<open>The constructor\<close>

text \<open>
  The argument \<open>cpstat\<close> is an object with the attributes \<open>tmin\<close>, \<open>t_interval\<close>,
  \<open>sw_width\<close> and \<open>id\<close>, or \<open>None\<close>.  \<open>var.FIGS_PATH\<close> is a constant of a module that
  is not among the sources; it is a parameter.  \<open>os.path.join\<close> is the one of POSIX.
\<close>

record cpstat =
  cp_tmin :: real
  cp_t_interval :: real
  cp_sw_width :: int
  cp_id :: string

definition path_join_step :: "string \<Rightarrow> string \<Rightarrow> string" where
  "path_join_step path b =
     (if take 1 b = ''/'' then b
      else if path = [] \<or> last path = CHR ''/'' then path @ b
      else path @ ''/'' @ b)"

definition os_path_join :: "string \<Rightarrow> string list \<Rightarrow> string" where
  "os_path_join a p = foldl path_join_step a p"

definition TimeSeries_init ::
  "string \<Rightarrow> real list option \<Rightarrow> cpstat option \<Rightarrow> real \<Rightarrow> real \<Rightarrow> int \<Rightarrow> int \<Rightarrow>
   string \<Rightarrow> string \<Rightarrow> string \<Rightarrow> string \<Rightarrow> string \<Rightarrow> bool \<Rightarrow> error + TimeSeries" where
  "TimeSeries_init FIGS_PATH val0 cp t_interval0 tmin0 sw_width_mean0 sw_width_ews0
       desc_long0 desc_short0 name0 savename0 label0 record_all =
     (let self0 = \<lparr>val = val0, n_pts = None, tmin = None, t_interval = None,
                   sw_width_mean = None, sw_width_ews = None,
                   desc_long = [], desc_short = [], label = [], name = [], savename = [],
                   t_pts = None, variance = None, autocorrelation = None, skewness = None,
                   kendall_tau = None, ratio_to_sw_mean = None\<rparr>
      in
      bnd (if exists self0 then
             bnd (case val0 of None \<Rightarrow> Inl TypeError | Some v \<Rightarrow> Inr (length v)) (\<lambda>n.
             let self1 = self0\<lparr>n_pts := Some n\<rparr>;
                 self2 = (case cp of
                            None \<Rightarrow> self1\<lparr>tmin := Some tmin0, t_interval := Some t_interval0,
                                           sw_width_mean := Some sw_width_mean0\<rparr>
                          | Some c \<Rightarrow> self1\<lparr>tmin := Some (cp_tmin c),
                                             t_interval := Some (cp_t_interval c),
                                             sw_width_mean := Some (cp_sw_width c)\<rparr>)
             in Inr (self2\<lparr>sw_width_ews := Some sw_width_ews0\<rparr>))
           else Inr self0) (\<lambda>self3.
      bnd (if savename0 \<noteq> [] then
             (case cp of
                None \<Rightarrow> Inl AttributeError
              | Some c \<Rightarrow> Inr (os_path_join FIGS_PATH [cp_id c, savename0 @ ''.png'']))
           else Inr []) (\<lambda>sv.
      let self4 = self3\<lparr>desc_long := desc_long0, desc_short := desc_short0, label := label0,
                        name := name0, savename := sv,
                        t_pts := None, variance := None, autocorrelation := None,
                        skewness := None, kendall_tau := None, ratio_to_sw_mean := None\<rparr>
      in if record_all then set_all_vars self4 else Inr self4)))"

subsection \<open>Calling a setter\<close>

text \<open>
  The setters by name, called as \<open>ts.set_xxx()\<close> (no argument) or \<open>ts.set_xxx(rerun=b)\<close>.
  Only \<open>set_ratio_to_sw_average\<close> and \<open>set_kendall_tau\<close> declare the parameter \<open>rerun\<close>
  (with default \<open>False\<close>); passing it to another setter is a \<open>TypeError\<close>.
\<close>

datatype setter =
    Set_t_pts
  | Set_ratio_to_sw_average
  | Set_variance
  | Set_autocorrelation
  | Set_skewness
  | Set_kendall_tau

fun call_setter :: "setter \<Rightarrow> bool option \<Rightarrow> TimeSeries \<Rightarrow> error + TimeSeries" where
  "call_setter Set_ratio_to_sw_average None ts = set_ratio_to_sw_average False ts"
| "call_setter Set_ratio_to_sw_average (Some rerun) ts = set_ratio_to_sw_average rerun ts"
| "call_setter Set_kendall_tau None ts = set_kendall_tau False ts"
| "call_setter Set_kendall_tau (Some rerun) ts = set_kendall_tau rerun ts"
| "call_setter Set_t_pts None ts = set_t_pts ts"
| "call_setter Set_variance None ts = set_variance ts"
| "call_setter Set_autocorrelation None ts = set_autocorrelation ts"
| "call_setter Set_skewness None ts = set_skewness ts"
| "call_setter _ (Some rerun) ts = Inl TypeError"

section \<open>The specification's reading of the sliding mean\<close>

text \<open>
  These definitions follow the words of the specification, not the code: the trailing
  window \<open>[max(0, i - sw), i)\<close> of the samples strictly before \<open>i\<close>, its arithmetic mean
  (at index 0, by convention, the sample itself), and the stored result: the
  difference for a series labelled as an autocorrelation, the ratio otherwise, with the
  fallback value 1 for a zero mean.
\<close>

definition window_before :: "real list \<Rightarrow> nat \<Rightarrow> nat \<Rightarrow> real list" where
  "window_before v sw i = take (i - (i - sw)) (drop (i - sw) v)"

definition spec_sliding_mean :: "real list \<Rightarrow> nat \<Rightarrow> nat \<Rightarrow> real" where
  "spec_sliding_mean v sw i = (if i = 0 then v ! 0 else mean (window_before v sw i))"

definition spec_ratio :: "bool \<Rightarrow> real list \<Rightarrow> nat \<Rightarrow> nat \<Rightarrow> npfloat" where
  "spec_ratio autoco v sw i =
     (let m = spec_sliding_mean v sw i
      in if autoco then Num (v ! i - m)
         else if m = 0 then Num 1
         else Num (v ! i / m))"

section \<open>An example object\<close>

text \<open>
  The object built by \<open>TimeSeries(val=v, sw_width_mean=swm, sw_width_ews=swe, label=lb)\<close>
  with the other arguments at their defaults.
\<close>

definition example_series :: "real list \<Rightarrow> int \<Rightarrow> int \<Rightarrow> string \<Rightarrow> TimeSeries" where
  "example_series v swm swe lb =
     \<lparr>val = Some v, n_pts = Some (length v), tmin = Some 0, t_interval = Some 300,
      sw_width_mean = Some swm, sw_width_ews = Some swe,
      desc_long = [], desc_short = [], label = lb, name = [], savename = [],
      t_pts = None, variance = None, autocorrelation = None, skewness = None,
      kendall_tau = None, ratio_to_sw_mean = None\<rparr>"

section \<open>Basic facts\<close>

lemma bnd_simps [simp]: "bnd (Inl e) f = Inl e" "bnd (Inr x) f = f x"
  by (simp_all add: bnd_def)

lemma attr_simps [simp]: "attr None = Inl AttributeError" "attr (Some x) = Inr x"
  by (simp_all add: attr_def)

section \<open>The predicate \<open>exists\<close> and the unpopulated states\<close>

text \<open>
  C10: \<open>exists()\<close> is true exactly when the value sequence is not \<open>None\<close>.  In particular
  it is true for an array of length zero: the constructor then takes the populated branch
  (it records \<open>n_pts = 0\<close> and the time and window parameters), and the setters run over
  the empty array instead of skipping: \<open>set_kendall_tau\<close> passes its guard and stores an
  empty sequence, \<open>set_variance\<close> stores an empty sequence, and
  \<open>set_ratio_to_sw_average\<close> goes on to read \<open>val[0]\<close>.
\<close>

theorem exists_iff_val_not_None:
  "exists ts = (val ts \<noteq> None)
   \<and> exists (ts\<lparr>val := Some []\<rparr>)
   \<and> TimeSeries_init F (Some []) None dt t0 swm swe dl ds nm [] lb False =
       Inr \<lparr>val = Some [], n_pts = Some 0, tmin = Some t0, t_interval = Some dt,
            sw_width_mean = Some swm, sw_width_ews = Some swe,
            desc_long = dl, desc_short = ds, label = lb, name = nm, savename = [],
            t_pts = None, variance = None, autocorrelation = None, skewness = None,
            kendall_tau = None, ratio_to_sw_mean = None\<rparr>
   \<and> set_kendall_tau False (ts\<lparr>val := Some [], sw_width_ews := Some w, kendall_tau := None\<rparr>) =
       (if w < 1 then Inl ValueError
        else Inr (ts\<lparr>val := Some [], sw_width_ews := Some w, kendall_tau := Some []\<rparr>))
   \<and> set_variance (ts\<lparr>val := Some [], sw_width_ews := Some w\<rparr>) =
       (if w < 1 then Inl ValueError
        else Inr (ts\<lparr>val := Some [], sw_width_ews := Some w, variance := Some []\<rparr>))
   \<and> set_ratio_to_sw_average False
         (ts\<lparr>val := Some [], n_pts := Some 0, sw_width_mean := Some sw, ratio_to_sw_mean := None\<rparr>) =
       Inl IndexError"
  by (simp add: exists_def TimeSeries_init_def set_kendall_tau_def set_variance_def
        set_ratio_to_sw_average_def sliding_mean_def pd_Series_def rolling_def)

text \<open>
  C2: the compute-all entry point on an unpopulated series.  With \<open>val = None\<close> the
  constructor assigns none of \<open>n_pts\<close>, \<open>tmin\<close>, \<open>t_interval\<close>, and \<open>set_all_vars\<close> fails in
  its first step, \<open>set_t_pts\<close>, with \<open>AttributeError\<close>; so does the constructor itself
  under \<open>record_all=True\<close>.  With an empty array \<open>set_t_pts\<close> stores an empty time axis
  (the field is no longer \<open>None\<close>) and \<open>set_ratio_to_sw_average\<close> then fails with
  \<open>IndexError\<close>.  Only \<open>set_kendall_tau\<close> tests \<open>exists()\<close> before computing.
\<close>

theorem set_all_vars_unpopulated_raises:
  "bnd (TimeSeries_init F None None 300 0 40 10 [] [] [] [] [] False) set_all_vars
     = Inl AttributeError
   \<and> TimeSeries_init F None None 300 0 40 10 [] [] [] [] [] True = Inl AttributeError
   \<and> bnd (TimeSeries_init F (Some []) None 300 0 40 10 [] [] [] [] [] False) set_all_vars
     = Inl IndexError
   \<and> TimeSeries_init F (Some []) None 300 0 40 10 [] [] [] [] [] True = Inl IndexError
   \<and> bnd (bnd (TimeSeries_init F (Some []) None 300 0 40 10 [] [] [] [] [] False) set_t_pts)
         (\<lambda>ts. Inr (t_pts ts)) = Inr (Some [])"
  by (simp add: TimeSeries_init_def exists_def set_all_vars_def set_t_pts_def np_arange_def
        set_ratio_to_sw_average_def sliding_mean_def)

section \<open>Skewness\<close>

text \<open>
  C1: \<open>set_skewness\<close> should compute the rolling skewness of \<open>self.val\<close> and store it
  without raising.  The method reads its local name \<open>x\<close> before assigning it, so on every
  object, populated or not, it raises \<open>UnboundLocalError\<close> and stores nothing; for
  instance on the series \<open>[1, 2, 3]\<close> built with the default arguments.
\<close>

theorem set_skewness_raises:
  "set_skewness ts = Inl UnboundLocalError
   \<and> bnd (TimeSeries_init F (Some [1, 2, 3]) None 300 0 40 10 [] [] [] [] [] False) set_skewness
       = Inl UnboundLocalError"
  by (simp add: set_skewness_def TimeSeries_init_def exists_def)

section \<open>The cumulative-sum implementation of the sliding mean\<close>

subsection \<open>Slices with the bounds that the method uses\<close>

lemma py_index_nat: "py_index n (int k) = min n k"
  by (simp add: py_index_def min_def)

lemma py_index_0: "py_index n 0 = 0"
  by (simp add: py_index_def)

lemma py_index_1: "py_index n 1 = min n 1"
  using py_index_nat [of n 1] by simp

lemma py_index_Suc: "py_index n (int k + 1) = min n (Suc k)"
  using py_index_nat [of n "Suc k"] by (simp add: add.commute)

lemma py_index_neg: "py_index n (- int k - 1) = n - Suc k"
  by (simp add: py_index_def)

lemma py_index_m1: "py_index n (- 1) = n - 1"
  by (simp add: py_index_def)

lemma cumsum_from_eq:
  "cumsum_from acc xs = map (\<lambda>j. acc + sum_list (take (Suc j) xs)) [0..<length xs]"
proof (induction xs arbitrary: acc)
  case Nil
  then show ?case by simp
next
  case (Cons x xs)
  have "[0..<length (x # xs)] = 0 # map Suc [0..<length xs]"
    by (simp add: upt_conv_Cons map_Suc_upt del: upt_Suc)
  then show ?case
    by (simp add: Cons.IH add.assoc o_def del: upt_Suc)
qed

lemma length_np_cumsum [simp]: "length (np_cumsum v) = length v"
  by (simp add: np_cumsum_def cumsum_from_eq)

lemma nth_np_cumsum: "j < length v \<Longrightarrow> np_cumsum v ! j = sum_list (take (Suc j) v)"
  by (simp add: np_cumsum_def cumsum_from_eq)

lemma length_np_arange_int: "length (np_arange_int a b) = nat (b - a)"
  by (simp add: np_arange_int_def)

lemma nth_np_arange_int: "j < nat (b - a) \<Longrightarrow> np_arange_int a b ! j = real_of_int (a + int j)"
  by (simp add: np_arange_int_def)

lemma py_slice_prefix: "py_slice xs (Some 0) (Some (int k)) = take k xs"
  by (simp add: py_slice_def slice_start_def slice_stop_def py_index_nat py_index_0 min_def)

lemma py_slice_tail: "py_slice xs (Some 1) None = drop 1 xs"
  by (cases xs) (simp_all add: py_slice_def slice_start_def slice_stop_def py_index_1)

lemma py_slice_mid: "py_slice xs (Some (int s)) (Some (- 1)) = take (length xs - 1 - s) (drop s xs)"
  by (simp add: py_slice_def slice_start_def slice_stop_def py_index_nat py_index_m1 min_def)

lemma py_slice_front: "py_slice xs None (Some (- int s - 1)) = take (length xs - Suc s) xs"
  by (simp add: py_slice_def slice_start_def slice_stop_def py_index_neg)

lemma np_setslice_first:
  assumes "xs \<noteq> []" and "length rhs = min (length xs) (Suc s) - 1"
  shows "np_setslice xs (Some 1) (Some (int s + 1)) rhs
         = Inr (take 1 xs @ rhs @ drop (min (length xs) (Suc s)) xs)"
proof -
  have "1 \<le> length xs" using assms(1) by (cases xs) simp_all
  then have "Suc (min (length xs) (Suc s) - Suc 0) = min (length xs) (Suc s)" by simp
  with \<open>1 \<le> length xs\<close> show ?thesis
    using assms(2)
    by (simp add: np_setslice_def slice_start_def slice_stop_def py_index_1 py_index_Suc Let_def)
qed

lemma np_setslice_rest:
  assumes "length rhs = length xs - Suc s"
  shows "np_setslice xs (Some (int s + 1)) None rhs = Inr (take (Suc s) xs @ rhs)"
  using assms
  by (simp add: np_setslice_def slice_start_def slice_stop_def py_index_Suc Let_def min_def)

lemma np_elementwise_same:
  "length xs = length ys \<Longrightarrow> np_elementwise f xs ys = Inr (map2 f xs ys)"
  by (simp add: np_elementwise_def)

lemma sliding_mean_unfold:
  assumes "v = v0 # vt"
  shows "sliding_mean (length v) (int s) v =
         Inr (Num v0 #
              map2 np_true_divide (take (min s (length vt)) (np_cumsum v))
                   (np_arange_int 1 (int (min (length vt) s) + 1)) @
              map (\<lambda>x. np_true_divide x (real s))
                  (map2 (-) (take (length vt - s) (drop s (np_cumsum v)))
                            (take (length vt - s) (np_cumsum v))))"
proof -
  define cs where "cs = np_cumsum v"
  define q where "q = map2 np_true_divide (take (min s (length vt)) cs)
                        (np_arange_int 1 (int (min (length vt) s) + 1))"
  define d where "d = map2 (-) (take (length vt - s) (drop s cs)) (take (length vt - s) cs)"
  define rest where "rest = drop (min (length vt) s) (replicate (length vt) (Num 0 :: npfloat))"
  define ms0 where "ms0 = (np_empty (length v))[0 := Num v0]"
  have n: "length v = Suc (length vt)" using assms by simp
  have lencs: "length cs = Suc (length vt)" by (simp add: cs_def n)
  have ms0: "ms0 = Num v0 # replicate (length vt) (Num 0)"
    by (simp add: ms0_def np_empty_def n)
  have len_tail: "int (length (py_slice ms0 (Some 1) None)) = int (length vt)"
    by (simp add: py_slice_tail ms0)
  have mn: "min (int s) (int (length vt)) = int (min s (length vt))" by simp
  have mn2: "min (int (length vt) + 1) (int s + 1) = int (min (length vt) s) + 1" by simp
  have lenq: "length q = min s (length vt)"
    by (simp add: q_def lencs length_np_arange_int min.commute)
  have q: "np_elementwise np_true_divide
             (py_slice cs (Some 0) (Some (min (int s) (int (length vt)))))
             (np_arange_int 1 (min (int (length vt) + 1) (int s + 1))) = Inr q"
    unfolding mn mn2 py_slice_prefix q_def
    by (rule np_elementwise_same) (simp add: lencs length_np_arange_int min.commute)
  have ms1: "np_setslice ms0 (Some 1) (Some (int s + 1)) q = Inr (Num v0 # q @ rest)"
  proof -
    have "ms0 \<noteq> []" by (simp add: ms0)
    moreover have "length q = min (length ms0) (Suc s) - 1"
      using lenq by (simp add: ms0 min.commute)
    ultimately have "np_setslice ms0 (Some 1) (Some (int s + 1)) q
        = Inr (take 1 ms0 @ q @ drop (min (length ms0) (Suc s)) ms0)"
      by (rule np_setslice_first)
    moreover have "take 1 ms0 = [Num v0]" by (simp add: ms0)
    moreover have "drop (min (length ms0) (Suc s)) ms0 = rest"
      by (simp add: ms0 rest_def)
    ultimately show ?thesis by simp
  qed
  have d: "np_elementwise (-) (py_slice cs (Some (int s)) (Some (- 1)))
             (py_slice cs None (Some (- int s - 1))) = Inr d"
    unfolding py_slice_mid py_slice_front d_def lencs
    by (simp add: np_elementwise_same lencs)
  have lend: "length d = length vt - s" by (simp add: d_def lencs)
  have lenrest: "length rest = length vt - s" by (simp add: rest_def)
  have take1: "take (Suc s) (Num v0 # q @ rest) = Num v0 # q @ take (s - length vt) rest"
    using lenq by (simp add: min_def)
  have rest_nil: "take (s - length vt) rest = []"
    using lenrest by (cases "s \<le> length vt") simp_all
  have ms2: "np_setslice (Num v0 # q @ rest) (Some (int s + 1)) None
               (map (\<lambda>x. np_true_divide x (real s)) d)
             = Inr (take (Suc s) (Num v0 # q @ rest) @ map (\<lambda>x. np_true_divide x (real s)) d)"
    by (rule np_setslice_rest) (simp add: lend lenq lenrest)
  have "sliding_mean (length v) (int s) v =
          bnd (np_elementwise np_true_divide
                 (py_slice cs (Some 0) (Some (min (int s) (int (length (py_slice ms0 (Some 1) None))))))
                 (np_arange_int 1 (min (int (length (py_slice ms0 (Some 1) None)) + 1) (int s + 1)))) (\<lambda>q.
          bnd (np_setslice ms0 (Some 1) (Some (int s + 1)) q) (\<lambda>ms1.
          bnd (np_elementwise (-)
                 (py_slice cs (Some (int s)) (Some (- 1)))
                 (py_slice cs None (Some (- int s - 1)))) (\<lambda>d.
          np_setslice ms1 (Some (int s + 1)) None
            (map (\<lambda>x. np_true_divide x (real_of_int (int s))) d))))"
    unfolding sliding_mean_def Let_def cs_def ms0_def by (simp add: assms)
  also have "\<dots> = Inr (Num v0 # q @ map (\<lambda>x. np_true_divide x (real s)) d)"
    unfolding len_tail q bnd_simps ms1 d of_int_of_nat_eq ms2 take1 rest_nil by simp
  finally show ?thesis unfolding q_def d_def cs_def .
qed

subsection \<open>The entries of \<open>mean_sliding\<close>\<close>

lemma sum_list_take_diff:
  assumes "k \<le> i"
  shows "sum_list (take i v) - sum_list (take k v) = sum_list (take (i - k) (drop k (v::real list)))"
proof -
  have "take i v = take k v @ take (i - k) (drop k v)"
    using assms take_add [of k "i - k" v] by simp
  then show ?thesis by simp
qed

lemma sliding_mean_nth:
  assumes v: "v = v0 # vt" and s: "0 < s" and i: "0 < i" "i < length v"
  shows "(map2 np_true_divide (take (min s (length vt)) (np_cumsum v))
                   (np_arange_int 1 (int (min (length vt) s) + 1)) @
              map (\<lambda>x. np_true_divide x (real s))
                  (map2 (-) (take (length vt - s) (drop s (np_cumsum v)))
                            (take (length vt - s) (np_cumsum v)))) ! (i - 1)
         = Num (mean (window_before v s i))"
proof -
  define cs where "cs = np_cumsum v"
  define q where "q = map2 np_true_divide (take (min s (length vt)) cs)
                        (np_arange_int 1 (int (min (length vt) s) + 1))"
  define d where "d = map2 (-) (take (length vt - s) (drop s cs)) (take (length vt - s) cs)"
  have n: "length v = Suc (length vt)" using v by simp
  have lencs: "length cs = Suc (length vt)" by (simp add: cs_def n)
  have lenq: "length q = min s (length vt)"
    by (simp add: q_def lencs length_np_arange_int min.commute)
  have lend: "length d = length vt - s" by (simp add: d_def lencs)
  have ivt: "i \<le> length vt" using i n by simp
  show ?thesis
  proof (cases "i \<le> s")
    case True
    then have lt: "i - 1 < length q" using i ivt lenq by (auto simp: min_def)
    have j1: "i - 1 < length (take (min s (length vt)) cs)" using lt lenq lencs by simp
    have j2: "i - 1 < nat (int (min (length vt) s) + 1 - 1)" using lt lenq by (simp add: min.commute)
    have "q ! (i - 1) = np_true_divide (cs ! (i - 1)) (np_arange_int 1 (int (min (length vt) s) + 1) ! (i - 1))"
      unfolding q_def using j1 j2 by (simp add: length_np_arange_int)
    also have "cs ! (i - 1) = sum_list (take i v)"
      unfolding cs_def using i by (simp add: nth_np_cumsum)
    also have "np_arange_int 1 (int (min (length vt) s) + 1) ! (i - 1) = real i"
      using nth_np_arange_int [OF j2] i by simp
    also have "np_true_divide (sum_list (take i v)) (real i) = Num (sum_list (take i v) / real i)"
      using i by (simp add: np_true_divide_def)
    also have "sum_list (take i v) / real i = mean (window_before v s i)"
      using True i by (simp add: mean_def window_before_def min_def)
    finally have "q ! (i - 1) = Num (mean (window_before v s i))" .
    then show ?thesis
      unfolding q_def [symmetric] d_def [symmetric] cs_def [symmetric] using lt by (simp add: nth_append)
  next
    case False
    then have si: "s < i" by simp
    then have lenq': "length q = s" using lenq ivt by simp
    define j where "j = i - 1 - s"
    have jd: "j < length d" using si ivt lend by (simp add: j_def)
    have ij: "i - 1 = s + j" using si by (simp add: j_def)
    have "(q @ map (\<lambda>x. np_true_divide x (real s)) d) ! (s + j) = np_true_divide (d ! j) (real s)"
      using jd lenq' by (simp add: nth_append)
    then have "(q @ map (\<lambda>x. np_true_divide x (real s)) d) ! (i - 1) = np_true_divide (d ! j) (real s)"
      unfolding ij .
    also have "d ! j = cs ! (s + j) - cs ! j"
      unfolding d_def using jd lend lencs by simp
    also have "cs ! (s + j) = sum_list (take i v)"
    proof -
      have "Suc (s + j) = i" using i ij by simp
      moreover have "s + j < length v" using i ij by simp
      ultimately show ?thesis unfolding cs_def by (simp add: nth_np_cumsum)
    qed
    also have "cs ! j = sum_list (take (i - s) v)"
    proof -
      have "Suc j = i - s" using si by (simp add: j_def)
      moreover have "j < length v" using jd lend n by simp
      ultimately show ?thesis unfolding cs_def by (simp add: nth_np_cumsum)
    qed
    also have "sum_list (take i v) - sum_list (take (i - s) v)
               = sum_list (take (i - (i - s)) (drop (i - s) v))"
      by (rule sum_list_take_diff) simp
    also have "np_true_divide (sum_list (take (i - (i - s)) (drop (i - s) v))) (real s)
               = Num (sum_list (take (i - (i - s)) (drop (i - s) v)) / real s)"
      using s by (simp add: np_true_divide_def)
    also have "sum_list (take (i - (i - s)) (drop (i - s) v)) / real s = mean (window_before v s i)"
    proof -
      have "length (window_before v s i) = s"
        using si i by (simp add: window_before_def)
      then show ?thesis by (simp add: mean_def window_before_def)
    qed
    finally show ?thesis
      unfolding q_def [symmetric] d_def [symmetric] cs_def [symmetric] .
  qed
qed

lemma sliding_mean_eq:
  assumes "v \<noteq> []" and "0 < sw"
  shows "sliding_mean (length v) sw v =
         Inr (map (\<lambda>i. Num (if i = 0 then v ! 0 else mean (window_before v (nat sw) i)))
                  [0..<length v])"
proof -
  obtain v0 vt where v: "v = v0 # vt" using assms(1) by (cases v) auto
  obtain s where s: "sw = int s" "0 < s" using assms(2) by (metis pos_int_cases zero_less_nat_eq nat_int)
  let ?tl = "map2 np_true_divide (take (min s (length vt)) (np_cumsum v))
                   (np_arange_int 1 (int (min (length vt) s) + 1)) @
              map (\<lambda>x. np_true_divide x (real s))
                  (map2 (-) (take (length vt - s) (drop s (np_cumsum v)))
                            (take (length vt - s) (np_cumsum v)))"
  have u: "sliding_mean (length v) sw v = Inr (Num v0 # ?tl)"
    unfolding s(1) by (rule sliding_mean_unfold [OF v])
  have len: "length ?tl = length vt"
    by (simp add: length_np_arange_int v min.commute)
  have "Num v0 # ?tl = map (\<lambda>i. Num (if i = 0 then v ! 0 else mean (window_before v (nat sw) i))) [0..<length v]"
  proof (rule nth_equalityI)
    show "length (Num v0 # ?tl) = length (map (\<lambda>i. Num (if i = 0 then v ! 0 else mean (window_before v (nat sw) i))) [0..<length v])"
      using len v by (simp del: upt_Suc)
  next
    fix i assume "i < length (Num v0 # ?tl)"
    then have i: "i < length v" using len v by simp
    show "(Num v0 # ?tl) ! i = map (\<lambda>i. Num (if i = 0 then v ! 0 else mean (window_before v (nat sw) i))) [0..<length v] ! i"
    proof (cases "i = 0")
      case True
      then show ?thesis using v i by (simp del: upt_Suc)
    next
      case False
      then have "(Num v0 # ?tl) ! i = ?tl ! (i - 1)" by (simp add: nth_Cons')
      also have "\<dots> = Num (mean (window_before v s i))"
        using sliding_mean_nth [OF v s(2) _ i] False by simp
      finally show ?thesis using False i s(1) by (simp del: upt_Suc)
    qed
  qed
  with u show ?thesis by simp
qed

section \<open>The ratio to the sliding mean\<close>

lemma py_slice_label: "py_slice lb (Some 0) (Some 6) = take 6 lb"
  using py_slice_prefix [of lb 6] by simp

lemma set_ratio_eq:
  assumes "val ts = Some v" and "n_pts ts = Some (length v)" and "sw_width_mean ts = Some sw"
    and "v \<noteq> []" and "0 < sw" and "ratio_to_sw_mean ts = None \<or> rerun"
  shows "set_ratio_to_sw_average rerun ts =
         Inr (ts\<lparr>ratio_to_sw_mean :=
                   Some (map (spec_ratio (take 6 (label ts) = ''autoco'') v (nat sw))
                             [0..<length v])\<rparr>)"
proof -
  let ?ms = "map (\<lambda>i. Num (if i = 0 then v ! 0 else mean (window_before v (nat sw) i)))
                 [0..<length v]"
  have sm: "sliding_mean (length v) sw v = Inr ?ms"
    using assms(4,5) by (rule sliding_mean_eq)
  have len: "length v = length ?ms" by simp
  have sub: "np_elementwise np_subtract v ?ms
             = Inr (map (spec_ratio True v (nat sw)) [0..<length v])"
  proof -
    have "map2 np_subtract v ?ms = map (spec_ratio True v (nat sw)) [0..<length v]"
      by (rule nth_equalityI) (simp_all add: spec_ratio_def spec_sliding_mean_def del: upt_Suc)
    then show ?thesis using np_elementwise_same [OF len, of np_subtract] by simp
  qed
  have dv: "divide_treatzero v ?ms 1 1
             = Inr (map (spec_ratio False v (nat sw)) [0..<length v])"
  proof -
    have "map2 (\<lambda>x y. divide_treatzero1 x y 1 1) v ?ms = map (spec_ratio False v (nat sw)) [0..<length v]"
      by (rule nth_equalityI) (simp_all add: spec_ratio_def spec_sliding_mean_def del: upt_Suc)
    then show ?thesis
      unfolding divide_treatzero_def
      using np_elementwise_same [OF len, of "\<lambda>x y. divide_treatzero1 x y 1 1"] by simp
  qed
  show ?thesis
    using assms(1,2,3,6) 
    by (auto simp add: set_ratio_to_sw_average_def sm sub dv py_slice_label simp del: upt_Suc)
qed



text \<open>
  C6: on a populated series with a positive window width, wherever the entry of
  \<open>mean_sliding\<close> is zero the method does not raise and the value it stores is not NaN:
  it is the fallback 1 of the safe division, or, for a label starting with \<open>autoco\<close>
  (where nothing is divided), \<open>val[i]\<close> itself.
\<close>

theorem zero_mean_uses_fallback:
  assumes "val ts = Some v" and "n_pts ts = Some (length v)" and "sw_width_mean ts = Some sw"
    and "0 < sw" and "ratio_to_sw_mean ts = None \<or> rerun" and "i < length v"
    and "bnd (sliding_mean (length v) sw v) (\<lambda>mean_sliding. Inr (mean_sliding ! i)) = Inr (Num 0)"
  shows "bnd (set_ratio_to_sw_average rerun ts)
             (\<lambda>ts'. Inr (map_option (\<lambda>r. (r ! i, r ! i = NaN)) (ratio_to_sw_mean ts')))
           = Inr (Some (if py_slice (label ts) (Some 0) (Some 6) = ''autoco''
                        then Num (v ! i) else Num 1, False))"
proof -
  have ne: "v \<noteq> []" using assms(6) by auto
  have "sliding_mean (length v) sw v =
         Inr (map (\<lambda>i. Num (if i = 0 then v ! 0 else mean (window_before v (nat sw) i)))
                  [0..<length v])"
    using ne assms(4) by (rule sliding_mean_eq)
  then have "bnd (sliding_mean (length v) sw v) (\<lambda>mean_sliding. Inr (mean_sliding ! i))
               = Inr (Num (spec_sliding_mean v (nat sw) i))"
    using assms(6) by (simp add: spec_sliding_mean_def del: upt_Suc)
  with assms(7) have m0: "spec_sliding_mean v (nat sw) i = 0"
    by simp
  have "set_ratio_to_sw_average rerun ts =
         Inr (ts\<lparr>ratio_to_sw_mean :=
                   Some (map (spec_ratio (take 6 (label ts) = ''autoco'') v (nat sw))
                             [0..<length v])\<rparr>)"
    using assms(1,2,3) ne assms(4,5) by (rule set_ratio_eq)
  then show ?thesis
    using assms(6) m0 by (simp add: spec_ratio_def py_slice_label Let_def del: upt_Suc)
qed

theorem zero_mean_uses_fallback_witness:
  "bnd (set_ratio_to_sw_average False (example_series [0, 0, 3, 4, 5] 2 10 []))
       (\<lambda>ts'. Inr (map_option (\<lambda>r. (r ! 2, r ! 2 = NaN)) (ratio_to_sw_mean ts')))
     = Inr (Some (Num 1, False))
   \<and> bnd (set_ratio_to_sw_average False (example_series [0, 0, 3, 4, 5] 2 10 ''autocorr''))
       (\<lambda>ts'. Inr (map_option (\<lambda>r. (r ! 2, r ! 2 = NaN)) (ratio_to_sw_mean ts')))
     = Inr (Some (Num 3, False))"
proof -
  have sm: "bnd (sliding_mean (length [0, 0, 3, 4, 5 :: real]) 2 [0, 0, 3, 4, 5])
              (\<lambda>mean_sliding. Inr (mean_sliding ! 2)) = Inr (Num 0)"
    using sliding_mean_eq [of "[0, 0, 3, 4, 5]" 2]
    by (simp add: window_before_def mean_def eval_nat_numeral)
  show ?thesis
    using zero_mean_uses_fallback
            [of "example_series [0, 0, 3, 4, 5] 2 10 []" "[0, 0, 3, 4, 5]" 2 False 2, OF _ _ _ _ _ _ sm]
          zero_mean_uses_fallback
            [of "example_series [0, 0, 3, 4, 5] 2 10 ''autocorr''" "[0, 0, 3, 4, 5]" 2 False 2,
             OF _ _ _ _ _ _ sm]
    by (simp add: example_series_def py_slice_label)
qed

text \<open>
  C9: the result at index 0.  The claim takes it to be \<open>val[0] / val[0]\<close> on every
  populated series; for a label starting with \<open>autoco\<close> the method stores the difference
  \<open>val[0] - val[0] = 0\<close> instead.
\<close>

theorem ratio_index0_autoco_counterexample:
  "bnd (bnd (TimeSeries_init [] (Some [2]) None 300 0 40 10 [] [] [] [] ''autocorr'' False)
            (set_ratio_to_sw_average False))
       (\<lambda>ts. Inr (ratio_to_sw_mean ts)) = Inr (Some [Num 0])
   \<and> Num 0 \<noteq> Num (2 / 2)"
proof -
  let ?ts = "\<lparr>val = Some [2], n_pts = Some (length [2::real]), tmin = Some 0, t_interval = Some 300,
            sw_width_mean = Some 40, sw_width_ews = Some 10,
            desc_long = [], desc_short = [], label = ''autocorr'', name = [], savename = [],
            t_pts = None, variance = None, autocorrelation = None, skewness = None,
            kendall_tau = None, ratio_to_sw_mean = None\<rparr>"
  have i: "TimeSeries_init [] (Some [2]) None 300 0 40 10 [] [] [] [] ''autocorr'' False = Inr ?ts"
    by (simp add: TimeSeries_init_def exists_def)
  have "set_ratio_to_sw_average False ?ts =
         Inr (?ts\<lparr>ratio_to_sw_mean :=
                   Some (map (spec_ratio (take 6 (label ?ts) = ''autoco'') [2] (nat 40))
                             [0..<length [2::real]])\<rparr>)"
    by (rule set_ratio_eq) simp_all
  then show ?thesis
    unfolding i by (simp add: spec_ratio_def spec_sliding_mean_def)
qed

text \<open>
  C9, amended: on a populated series with a positive window width the entry of
  \<open>mean_sliding\<close> at index 0 is \<open>val[0]\<close> itself, and the stored result at index 0 is a
  number, not NaN: \<open>val[0] / val[0]\<close> (the fallback 1 when \<open>val[0]\<close> is 0) unless the label
  starts with \<open>autoco\<close>, and \<open>val[0] - val[0]\<close> when it does.
\<close>

theorem ratio_index0_defined:
  assumes "val ts = Some v" and "n_pts ts = Some (length v)" and "sw_width_mean ts = Some sw"
    and "0 < sw" and "ratio_to_sw_mean ts = None \<or> rerun" and "v \<noteq> []"
  shows "bnd (sliding_mean (length v) sw v) (\<lambda>mean_sliding. Inr (mean_sliding ! 0))
           = Inr (Num (v ! 0))
       \<and> bnd (set_ratio_to_sw_average rerun ts)
             (\<lambda>ts'. Inr (map_option (\<lambda>r. (r ! 0, r ! 0 = NaN)) (ratio_to_sw_mean ts')))
           = Inr (Some (if py_slice (label ts) (Some 0) (Some 6) = ''autoco''
                        then Num (v ! 0 - v ! 0)
                        else if v ! 0 = 0 then Num 1
                        else Num (v ! 0 / v ! 0), False))"
proof -
  have pos: "0 < length v" using assms(6) by simp
  have "sliding_mean (length v) sw v =
         Inr (map (\<lambda>i. Num (if i = 0 then v ! 0 else mean (window_before v (nat sw) i)))
                  [0..<length v])"
    using assms(6,4) by (rule sliding_mean_eq)
  then have a: "bnd (sliding_mean (length v) sw v) (\<lambda>mean_sliding. Inr (mean_sliding ! 0))
           = Inr (Num (v ! 0))"
    using pos by (simp del: upt_Suc)
  have "set_ratio_to_sw_average rerun ts =
         Inr (ts\<lparr>ratio_to_sw_mean :=
                   Some (map (spec_ratio (take 6 (label ts) = ''autoco'') v (nat sw))
                             [0..<length v])\<rparr>)"
    using assms(1,2,3,6,4,5) by (rule set_ratio_eq)
  then show ?thesis
    using a pos by (simp add: spec_ratio_def spec_sliding_mean_def py_slice_label Let_def del: upt_Suc)
qed

theorem ratio_index0_defined_witness:
  "bnd (sliding_mean 2 40 [2, 5]) (\<lambda>mean_sliding. Inr (mean_sliding ! 0)) = Inr (Num 2)
   \<and> bnd (set_ratio_to_sw_average False (example_series [2, 5] 40 10 []))
         (\<lambda>ts'. Inr (map_option (\<lambda>r. (r ! 0, r ! 0 = NaN)) (ratio_to_sw_mean ts')))
       = Inr (Some (Num 1, False))
   \<and> bnd (set_ratio_to_sw_average False (example_series [0, 5] 40 10 []))
         (\<lambda>ts'. Inr (map_option (\<lambda>r. (r ! 0, r ! 0 = NaN)) (ratio_to_sw_mean ts')))
       = Inr (Some (Num 1, False))
   \<and> bnd (set_ratio_to_sw_average False (example_series [2, 5] 40 10 ''autocorr''))
         (\<lambda>ts'. Inr (map_option (\<lambda>r. (r ! 0, r ! 0 = NaN)) (ratio_to_sw_mean ts')))
       = Inr (Some (Num 0, False))"
  using ratio_index0_defined [of "example_series [2, 5] 40 10 []" "[2, 5]" 40 False]
        ratio_index0_defined [of "example_series [0, 5] 40 10 []" "[0, 5]" 40 False]
        ratio_index0_defined [of "example_series [2, 5] 40 10 ''autocorr''" "[2, 5]" 40 False]
  by (simp add: example_series_def py_slice_label eval_nat_numeral)

section \<open>The time axis\<close>





section \<open>Kendall's tau\<close>

lemma rolling_windows:
  "0 < w \<Longrightarrow> rolling w xs = Inr (map (\<lambda>i. drop (Suc i - nat w) (take (Suc i) xs)) [0..<length xs])"
  by (simp add: rolling_def)

lemma np_arange_int_from0: "length (np_arange_int 0 (int k)) = k"
  by (simp add: length_np_arange_int)

lemma kendalltau_c_defined:
  assumes "length x = length y"
  shows "kendalltau_c x y \<noteq> Inl e"
  using assms by (simp add: kendalltau_c_def Let_def)

lemma calc_kendall_tau_not_nan: "bnd (calc_kendall_tau y) (\<lambda>r. Inr (r = NaN)) = Inr False"
proof (cases "kendalltau_c (np_arange_int 0 (int (length y))) y")
  case (Inl e)
  then show ?thesis
    using kendalltau_c_defined [of "np_arange_int 0 (int (length y))" y e]
    by (simp add: np_arange_int_from0)
next
  case (Inr res)
  then show ?thesis by (simp add: calc_kendall_tau_def Let_def)
qed

lemma apply_each_total:
  assumes "\<And>w. bnd (f w) (\<lambda>r. Inr (P r)) = Inr True"
  shows "bnd (apply_each f ws) (\<lambda>rs. Inr (length rs, list_all P rs)) = Inr (length ws, True)"
proof (induction ws)
  case Nil
  then show ?case by simp
next
  case (Cons w ws)
  obtain r where r: "f w = Inr r" "P r"
    using assms [of w] by (cases "f w") auto
  obtain rs where rs: "apply_each f ws = Inr rs" "length rs = length ws" "list_all P rs"
    using Cons.IH by (cases "apply_each f ws") auto
  show ?case by (simp add: r rs)
qed

lemma set_kendall_tau_no_nan:
  assumes "val ts = Some v" and "sw_width_ews ts = Some w" and "0 < w"
    and "kendall_tau ts = None \<or> rerun"
  shows "bnd (set_kendall_tau rerun ts)
             (\<lambda>ts'. Inr (map_option (\<lambda>rs. (length rs, NaN \<in> set rs)) (kendall_tau ts')))
           = Inr (Some (length v, False))"
proof -
  let ?ws = "map (\<lambda>i. drop (Suc i - nat w) (take (Suc i) v)) [0..<length v]"
  have r: "rolling w v = Inr ?ws" using assms(3) by (rule rolling_windows)
  have "\<And>y. bnd (calc_kendall_tau y) (\<lambda>r. Inr (r \<noteq> NaN)) = Inr True"
  proof -
    fix y
    show "bnd (calc_kendall_tau y) (\<lambda>r. Inr (r \<noteq> NaN)) = Inr True"
      using calc_kendall_tau_not_nan [of y] by (cases "calc_kendall_tau y") auto
  qed
  then have "bnd (apply_each calc_kendall_tau ?ws) (\<lambda>rs. Inr (length rs, list_all (\<lambda>r. r \<noteq> NaN) rs))
             = Inr (length ?ws, True)"
    by (rule apply_each_total)
  then obtain rs where rs: "apply_each calc_kendall_tau ?ws = Inr rs" "length rs = length v"
      "list_all (\<lambda>r. r \<noteq> NaN) rs"
    by (cases "apply_each calc_kendall_tau ?ws") auto
  have "NaN \<notin> set rs" using rs(3) by (auto simp: list_all_iff)
  then show ?thesis
    using assms(1,2,4) rs(1,2) r
    by (auto simp add: set_kendall_tau_def exists_def pd_Series_def)
qed

text \<open>
  C7: \<open>calc_kendall_tau\<close> returns on every window, and its result is never NaN: when the
  tau-c statistic of the positions \<open>0..k-1\<close> against the window is NaN (a single sample,
  or all values equal) it returns 0.  So on a populated series with a positive window
  width \<open>set_kendall_tau\<close> stores a sequence with one entry per sample and no NaN in it.
\<close>

theorem kendall_tau_nan_is_zero:
  assumes "val ts = Some v" and "sw_width_ews ts = Some w" and "0 < w"
    and "kendall_tau ts = None \<or> rerun"
  shows "bnd (calc_kendall_tau y) (\<lambda>r. Inr (r = NaN)) = Inr False
       \<and> (kendalltau_c (np_arange_int 0 (int (length y))) y = Inr NaN
            \<longrightarrow> calc_kendall_tau y = Inr (Num 0))
       \<and> bnd (set_kendall_tau rerun ts)
             (\<lambda>ts'. Inr (map_option (\<lambda>rs. (length rs, NaN \<in> set rs)) (kendall_tau ts')))
           = Inr (Some (length v, False))"
proof -
  have a: "bnd (calc_kendall_tau y) (\<lambda>r. Inr (r = NaN)) = Inr False"
    by (rule calc_kendall_tau_not_nan)
  have b: "kendalltau_c (np_arange_int 0 (int (length y))) y = Inr NaN
            \<longrightarrow> calc_kendall_tau y = Inr (Num 0)"
    by (simp add: calc_kendall_tau_def Let_def)
  have c: "bnd (set_kendall_tau rerun ts)
             (\<lambda>ts'. Inr (map_option (\<lambda>rs. (length rs, NaN \<in> set rs)) (kendall_tau ts')))
           = Inr (Some (length v, False))"
    using assms by (rule set_kendall_tau_no_nan)
  show ?thesis using a b c by blast
qed

lemma np_arange_int_0_1: "np_arange_int 0 1 = [0]"
  by (simp add: np_arange_int_def)

lemma np_arange_int_0_3: "np_arange_int 0 3 = [0, 1, 2]"
  by (simp add: np_arange_int_def upto.simps)

theorem kendall_tau_nan_is_zero_witness:
  "kendalltau_c (np_arange_int 0 1) [5] = Inr NaN
   \<and> calc_kendall_tau [5] = Inr (Num 0)
   \<and> kendalltau_c (np_arange_int 0 3) [2, 2, 2] = Inr NaN
   \<and> calc_kendall_tau [2, 2, 2] = Inr (Num 0)
   \<and> bnd (set_kendall_tau False (example_series [1, 2, 4, 4, 5] 2 3 []))
         (\<lambda>ts'. Inr (map_option (\<lambda>rs. (length rs, NaN \<in> set rs)) (kendall_tau ts')))
       = Inr (Some (5, False))"
proof -
  have k1: "kendalltau_c (np_arange_int 0 (int (length [5::real]))) [5] = Inr NaN"
    by (simp add: kendalltau_c_def np_arange_int_0_1)
  have k3: "kendalltau_c (np_arange_int 0 (int (length [2, 2, 2::real]))) [2, 2, 2] = Inr NaN"
    by (simp add: kendalltau_c_def np_arange_int_0_3)
  show ?thesis
    using kendall_tau_nan_is_zero
            [of "example_series [1, 2, 4, 4, 5] 2 3 []" "[1, 2, 4, 4, 5]" 3 False "[5]"]
          kendall_tau_nan_is_zero
            [of "example_series [1, 2, 4, 4, 5] 2 3 []" "[1, 2, 4, 4, 5]" 3 False "[2, 2, 2]"]
          k1 k3
    by (simp add: example_series_def)
qed

section \<open>The lengths of the derived sequences\<close>

text \<open>
  C3: the lengths of the derived sequences.  On a populated series of \<open>n \<ge> 1\<close> samples with
  positive window widths, the ratio to the sliding mean, the variance, the autocorrelation
  and Kendall's tau have exactly \<open>n\<close> entries once their setters have run; the skewness is
  never computed, since \<open>set_skewness\<close> raises, and its field stays \<open>None\<close>.
\<close>

theorem derived_lengths_except_skewness:
  assumes "val ts = Some v" and "n_pts ts = Some (length v)" and "v \<noteq> []"
    and "sw_width_mean ts = Some swm" and "0 < swm"
    and "sw_width_ews ts = Some swe" and "0 < swe"
  shows "bnd (set_ratio_to_sw_average True ts)
             (\<lambda>ts'. Inr (map_option length (ratio_to_sw_mean ts'))) = Inr (Some (length v))
       \<and> bnd (set_variance ts)
             (\<lambda>ts'. Inr (map_option length (variance ts'))) = Inr (Some (length v))
       \<and> bnd (set_autocorrelation ts)
             (\<lambda>ts'. Inr (map_option length (autocorrelation ts'))) = Inr (Some (length v))
       \<and> bnd (set_kendall_tau True ts)
             (\<lambda>ts'. Inr (map_option length (kendall_tau ts'))) = Inr (Some (length v))
       \<and> set_skewness ts = Inl UnboundLocalError"
proof -
  have "set_ratio_to_sw_average True ts =
         Inr (ts\<lparr>ratio_to_sw_mean :=
                   Some (map (spec_ratio (take 6 (label ts) = ''autoco'') v (nat swm))
                             [0..<length v])\<rparr>)"
    using assms(1,2,4,3,5) by (rule set_ratio_eq) simp
  then have a: "bnd (set_ratio_to_sw_average True ts)
             (\<lambda>ts'. Inr (map_option length (ratio_to_sw_mean ts'))) = Inr (Some (length v))"
    by simp
  have r: "rolling swe v = Inr (map (\<lambda>i. drop (Suc i - nat swe) (take (Suc i) v)) [0..<length v])"
    using assms(7) by (rule rolling_windows)
  have b: "bnd (set_variance ts)
             (\<lambda>ts'. Inr (map_option length (variance ts'))) = Inr (Some (length v))"
    using assms(1,6) r by (simp add: set_variance_def pd_Series_def)
  have c: "bnd (set_autocorrelation ts)
             (\<lambda>ts'. Inr (map_option length (autocorrelation ts'))) = Inr (Some (length v))"
    using assms(1,6) r by (simp add: set_autocorrelation_def pd_Series_def)
  have "bnd (set_kendall_tau True ts)
             (\<lambda>ts'. Inr (map_option (\<lambda>rs. (length rs, NaN \<in> set rs)) (kendall_tau ts')))
           = Inr (Some (length v, False))"
    using assms(1,6,7) by (rule set_kendall_tau_no_nan) simp
  then have d: "bnd (set_kendall_tau True ts)
             (\<lambda>ts'. Inr (map_option length (kendall_tau ts'))) = Inr (Some (length v))"
    by (cases "set_kendall_tau True ts") (auto simp: map_option_case split: option.splits)
  have e: "set_skewness ts = Inl UnboundLocalError"
    by (simp add: set_skewness_def)
  show ?thesis using a b c d e by blast
qed

theorem derived_lengths_except_skewness_witness:
  "bnd (set_ratio_to_sw_average True (example_series [1, 2, 3] 40 10 []))
       (\<lambda>ts'. Inr (map_option length (ratio_to_sw_mean ts'))) = Inr (Some 3)
   \<and> bnd (set_variance (example_series [1, 2, 3] 40 10 []))
       (\<lambda>ts'. Inr (map_option length (variance ts'))) = Inr (Some 3)
   \<and> bnd (set_autocorrelation (example_series [1, 2, 3] 40 10 []))
       (\<lambda>ts'. Inr (map_option length (autocorrelation ts'))) = Inr (Some 3)
   \<and> bnd (set_kendall_tau True (example_series [1, 2, 3] 40 10 []))
       (\<lambda>ts'. Inr (map_option length (kendall_tau ts'))) = Inr (Some 3)
   \<and> set_skewness (example_series [1, 2, 3] 40 10 []) = Inl UnboundLocalError"
  using derived_lengths_except_skewness [of "example_series [1, 2, 3] 40 10 []" "[1, 2, 3]" 40 10]
  by (simp add: example_series_def)

section \<open>Caching and recomputation\<close>

text \<open>
  C5: idempotence of the setters.  The claim covers every \<open>set_*\<close> operation;
  \<open>set_variance\<close> declares no \<open>rerun\<close> parameter, so \<open>set_variance(rerun=True)\<close> is a
  \<open>TypeError\<close>, and without any flag it recomputes and overwrites a cached field: after
  the width is changed from 3 to 2 a second call replaces the cached variance.
\<close>

theorem set_variance_not_cached_counterexample:
  "call_setter Set_variance (Some True) (example_series [1, 2, 4] 40 3 []) = Inl TypeError
   \<and> bnd (set_variance (example_series [1, 2, 4] 40 3 []))
         (\<lambda>ts1. bnd (set_variance (ts1\<lparr>sw_width_ews := Some 2\<rparr>))
            (\<lambda>ts2. Inr (variance ts1, variance ts2)))
       = Inr (Some [NaN, Num (1 / 2), Num (7 / 3)], Some [NaN, Num (1 / 2), Num 2])"
  by (simp add: example_series_def set_variance_def pd_Series_def rolling_def roll_var_def
        central_sum_def mean_def eval_nat_numeral)

text \<open>
  C5, amended: \<open>set_ratio_to_sw_average\<close> and \<open>set_kendall_tau\<close> are idempotent when no
  recompute flag is passed (a call without argument, or with \<open>rerun=False\<close>, on an object
  whose cached field is set returns the object unchanged), and with \<open>rerun=True\<close> they
  overwrite the cache with the result of a fresh computation on the same input (for
  \<open>set_kendall_tau\<close>, on a populated series: its guard \<open>exists()\<close> skips the others).
  \<open>set_t_pts\<close>, \<open>set_variance\<close> and \<open>set_autocorrelation\<close> take no recompute flag; every call
  recomputes the field from the input and overwrites what was cached.
\<close>

theorem setters_cache_behaviour:
  "call_setter Set_ratio_to_sw_average None (ts\<lparr>ratio_to_sw_mean := Some r\<rparr>)
     = Inr (ts\<lparr>ratio_to_sw_mean := Some r\<rparr>)
   \<and> call_setter Set_ratio_to_sw_average (Some False) (ts\<lparr>ratio_to_sw_mean := Some r\<rparr>)
     = Inr (ts\<lparr>ratio_to_sw_mean := Some r\<rparr>)
   \<and> call_setter Set_kendall_tau None (ts\<lparr>kendall_tau := Some r\<rparr>)
     = Inr (ts\<lparr>kendall_tau := Some r\<rparr>)
   \<and> call_setter Set_kendall_tau (Some False) (ts\<lparr>kendall_tau := Some r\<rparr>)
     = Inr (ts\<lparr>kendall_tau := Some r\<rparr>)
   \<and> call_setter Set_ratio_to_sw_average (Some True) (ts\<lparr>ratio_to_sw_mean := Some r\<rparr>)
     = call_setter Set_ratio_to_sw_average None (ts\<lparr>ratio_to_sw_mean := None\<rparr>)
   \<and> call_setter Set_kendall_tau (Some True) (ts\<lparr>val := Some v, kendall_tau := Some r\<rparr>)
     = call_setter Set_kendall_tau None (ts\<lparr>val := Some v, kendall_tau := None\<rparr>)
   \<and> call_setter Set_t_pts None (ts\<lparr>t_pts := Some c\<rparr>)
     = call_setter Set_t_pts None (ts\<lparr>t_pts := None\<rparr>)
   \<and> call_setter Set_variance None (ts\<lparr>variance := Some r\<rparr>)
     = call_setter Set_variance None (ts\<lparr>variance := None\<rparr>)
   \<and> call_setter Set_autocorrelation None (ts\<lparr>autocorrelation := Some r\<rparr>)
     = call_setter Set_autocorrelation None (ts\<lparr>autocorrelation := None\<rparr>)
   \<and> call_setter Set_t_pts (Some b) ts = Inl TypeError
   \<and> call_setter Set_variance (Some b) ts = Inl TypeError
   \<and> call_setter Set_autocorrelation (Some b) ts = Inl TypeError"
proof -
  have a: "set_ratio_to_sw_average False (ts\<lparr>ratio_to_sw_mean := Some r\<rparr>)
             = Inr (ts\<lparr>ratio_to_sw_mean := Some r\<rparr>)"
    by (simp add: set_ratio_to_sw_average_def)
  have b: "set_kendall_tau False (ts\<lparr>kendall_tau := Some r\<rparr>)
             = Inr (ts\<lparr>kendall_tau := Some r\<rparr>)"
    by (simp add: set_kendall_tau_def)
  have c: "set_ratio_to_sw_average True (ts\<lparr>ratio_to_sw_mean := Some r\<rparr>)
             = set_ratio_to_sw_average False (ts\<lparr>ratio_to_sw_mean := None\<rparr>)"
    by (simp add: set_ratio_to_sw_average_def bnd_def split: option.splits sum.splits)
  have d: "set_kendall_tau True (ts\<lparr>val := Some v, kendall_tau := Some r\<rparr>)
             = set_kendall_tau False (ts\<lparr>val := Some v, kendall_tau := None\<rparr>)"
    by (simp add: set_kendall_tau_def exists_def bnd_def split: option.splits sum.splits)
  have e: "set_t_pts (ts\<lparr>t_pts := Some c\<rparr>) = set_t_pts (ts\<lparr>t_pts := None\<rparr>)"
    by (simp add: set_t_pts_def bnd_def split: option.splits sum.splits)
  have f: "set_variance (ts\<lparr>variance := Some r\<rparr>) = set_variance (ts\<lparr>variance := None\<rparr>)"
    by (simp add: set_variance_def bnd_def split: option.splits sum.splits)
  have g: "set_autocorrelation (ts\<lparr>autocorrelation := Some r\<rparr>)
             = set_autocorrelation (ts\<lparr>autocorrelation := None\<rparr>)"
    by (simp add: set_autocorrelation_def bnd_def split: option.splits sum.splits)
  show ?thesis using a b c d e f g by simp
qed

end
